theory Spec2Isabelle
  imports Main
begin

section \<open>Order fulfilment: the inventory ledger and the order state machine\<close>

text \<open>
  A shallow embedding of the order-fulfilment core of the repository:
  \<^item> \<^verbatim>\<open>inventory/models.py\<close>: \<^verbatim>\<open>InventoryItem\<close> with \<^verbatim>\<open>reserve_stock\<close>,
    \<^verbatim>\<open>release_stock\<close>, \<^verbatim>\<open>fulfill_order\<close>, and the \<^verbatim>\<open>InventoryTransaction\<close> log;
  \<^item> \<^verbatim>\<open>inventory/signals.py\<close>: the receivers run by \<^verbatim>\<open>InventoryItem.save()\<close>;
  \<^item> \<^verbatim>\<open>inventory/views.py\<close> and \<^verbatim>\<open>inventory/serializers.py\<close>: the administrative
    \<^verbatim>\<open>adjust\<close> action and its validation;
  \<^item> \<^verbatim>\<open>orders/models.py\<close>: \<^verbatim>\<open>Order.update_status\<close> and \<^verbatim>\<open>Order.calculate_total\<close>;
  \<^item> \<^verbatim>\<open>orders/signals.py\<close>: the receivers run by \<^verbatim>\<open>Order.save()\<close> and by the creation
    of an \<^verbatim>\<open>OrderItem\<close>;
  \<^item> \<^verbatim>\<open>orders/serializers.py\<close>: \<^verbatim>\<open>OrderCreateSerializer.create\<close>;
  \<^item> \<^verbatim>\<open>orders/views.py\<close>: the \<^verbatim>\<open>cancel\<close> action;
  \<^item> \<^verbatim>\<open>orders/tasks.py\<close>: \<^verbatim>\<open>check_stale_orders\<close>.

  Conventions of the embedding.
  \<^item> Python integers are \<open>int\<close>. The arithmetic is the arithmetic of the Python code; the
    checks a storage engine may add to a column (the non-negativity of a
    \<^verbatim>\<open>PositiveIntegerField\<close>, \<^verbatim>\<open>unique_together\<close>) are not part of the code and are not
    modelled: the store accepts every write.
  \<^item> The database is a record of tables, passed in and returned. Tables that the code
    reads in query order are lists; the inventory, one row per product, is a map.
  \<^item> A timestamp is an \<open>int\<close> (seconds); the reading of \<^verbatim>\<open>timezone.now()\<close> is a parameter
    \<open>now\<close> of the operation that reads the clock.
  \<^item> An identifier drawn by \<^verbatim>\<open>uuid.uuid4\<close> is a parameter.
  \<^item> Free-text columns that the ledger fills with formatted messages (\<^verbatim>\<open>notes\<close>,
    \<^verbatim>\<open>reference_number\<close>, \<^verbatim>\<open>processed_by\<close> of a transaction), customer and address
    columns of an order, and log output are left out: no operation reads them back.
  \<^item> The task broker is a list of submitted tasks. It is not part of the database: a
    rolled-back database transaction does not withdraw a submitted task.
  \<^item> The post-save receivers of both applications are taken as connected, as the
    repository's tests rely on them.
\<close>

subsection \<open>Data model\<close>

type_synonym product_id = nat
type_synonym order_id = nat
type_synonym time = int

datatype transaction_type = RESERVE | RELEASE | FULFILL | ADJUST | RECEIVE | DAMAGE

record inventory_item =
  quantity :: int
  reserved_quantity :: int
  minimum_threshold :: int
  maximum_capacity :: int

record inventory_transaction =
  txn_item :: product_id
  txn_type :: transaction_type
  txn_quantity :: int
  previous_quantity :: int
  new_quantity :: int
  previous_reserved :: int
  new_reserved :: int
  txn_order_id :: "order_id option"

datatype order_status = PENDING | PROCESSING | SHIPPED | DELIVERED | CANCELLED | FAILED

record order =
  order_id :: order_id
  status :: order_status
  current_state_since :: time
  version :: int
  total_amount :: int
  processing_started_at :: "time option"
  completed_at :: "time option"

record order_item =
  item_order :: order_id
  item_product :: product_id
  item_quantity :: int
  item_price :: int

record order_status_history =
  hist_order :: order_id
  from_status :: order_status
  to_status :: order_status
  hist_notes :: string

text \<open>A submitted run of \<^verbatim>\<open>process_order\<close>: the order and the countdown in seconds.\<close>

datatype task = ProcessOrder order_id nat

text \<open>
  The tables. \<open>transactions\<close> and \<open>status_history\<close> are in creation order (a new row is
  appended); \<open>orders\<close> is in the model's default query order \<^verbatim>\<open>-created_at\<close> (a new row
  is put in front).
\<close>

record world =
  inventory :: "product_id \<rightharpoonup> inventory_item"
  transactions :: "inventory_transaction list"
  orders :: "order list"
  order_items :: "order_item list"
  status_history :: "order_status_history list"
  task_queue :: "task list"

subsection \<open>The inventory ledger (\<^verbatim>\<open>inventory/models.py\<close>, \<^verbatim>\<open>inventory/signals.py\<close>)\<close>

definition available_quantity :: "inventory_item \<Rightarrow> int" where
  "available_quantity i = max 0 (quantity i - reserved_quantity i)"

text \<open>
  \<^verbatim>\<open>cls.objects.select_for_update().get(product_id=product_id)\<close>: \<open>None\<close> stands for the
  raised \<^verbatim>\<open>DoesNotExist\<close>.
\<close>

definition objects_get :: "world \<Rightarrow> product_id \<Rightarrow> inventory_item option" where
  "objects_get w pid = inventory w pid"

definition create_transaction :: "inventory_transaction \<Rightarrow> world \<Rightarrow> world" where
  "create_transaction t w = w\<lparr>transactions := transactions w @ [t]\<rparr>"

text \<open>
  The receivers \<^verbatim>\<open>track_inventory_changes\<close> (pre-save) and \<^verbatim>\<open>log_inventory_changes\<close>
  (post-save) of an existing item: \<open>prev\<close> is the stored row read before the write,
  \<open>inst\<close> the instance being saved. A changed \<open>quantity\<close> is logged here unless a
  transaction with the same new counters already exists.
\<close>

definition log_inventory_changes ::
  "product_id \<Rightarrow> inventory_item \<Rightarrow> inventory_item \<Rightarrow> world \<Rightarrow> world" where
  "log_inventory_changes pid prev inst w =
     (let has_changes = (quantity prev \<noteq> quantity inst
                         \<or> reserved_quantity prev \<noteq> reserved_quantity inst) in
      if has_changes \<and> quantity prev \<noteq> quantity inst then
        let quantity_change = quantity inst - quantity prev;
            transaction_type = (if quantity_change > 0 then RECEIVE else ADJUST);
            recent_transactions =
              length (filter (\<lambda>t. txn_item t = pid
                                   \<and> new_quantity t = quantity inst
                                   \<and> new_reserved t = reserved_quantity inst)
                             (transactions w))
        in if recent_transactions = 0 then
             create_transaction
               \<lparr>txn_item = pid, txn_type = transaction_type,
                txn_quantity = \<bar>quantity_change\<bar>,
                previous_quantity = quantity prev, new_quantity = quantity inst,
                previous_reserved = reserved_quantity prev,
                new_reserved = reserved_quantity inst,
                txn_order_id = None\<rparr> w
           else w
      else w)"

text \<open>\<^verbatim>\<open>inventory.save()\<close>: the write, then the receivers.\<close>

definition save_item :: "product_id \<Rightarrow> inventory_item \<Rightarrow> world \<Rightarrow> world" where
  "save_item pid inst w =
     (let w1 = w\<lparr>inventory := (inventory w)(pid \<mapsto> inst)\<rparr> in
      case inventory w pid of
        None \<Rightarrow> w1
      | Some prev \<Rightarrow> log_inventory_changes pid prev inst w1)"

text \<open>
  The three ledger operations. Each runs inside \<^verbatim>\<open>transaction.atomic()\<close> on the row
  locked by \<^verbatim>\<open>select_for_update\<close>; no statement of the block raises in this model, so
  the block commits what it wrote.
\<close>

definition reserve_stock :: "product_id \<Rightarrow> int \<Rightarrow> world \<Rightarrow> bool \<times> world" where
  "reserve_stock pid qty w =
     (case objects_get w pid of
        None \<Rightarrow> (False, w)
      | Some it \<Rightarrow>
          if available_quantity it \<ge> qty then
            let it' = it\<lparr>reserved_quantity := reserved_quantity it + qty\<rparr>;
                w1 = save_item pid it' w;
                w2 = create_transaction
                       \<lparr>txn_item = pid, txn_type = RESERVE, txn_quantity = qty,
                        previous_quantity = quantity it', new_quantity = quantity it',
                        previous_reserved = reserved_quantity it' - qty,
                        new_reserved = reserved_quantity it',
                        txn_order_id = None\<rparr> w1
            in (True, w2)
          else (False, w))"

definition release_stock ::
  "product_id \<Rightarrow> int \<Rightarrow> order_id option \<Rightarrow> world \<Rightarrow> bool \<times> world" where
  "release_stock pid qty oid w =
     (case objects_get w pid of
        None \<Rightarrow> (False, w)
      | Some it \<Rightarrow>
          if reserved_quantity it \<ge> qty then
            let it' = it\<lparr>reserved_quantity := reserved_quantity it - qty\<rparr>;
                w1 = save_item pid it' w;
                w2 = create_transaction
                       \<lparr>txn_item = pid, txn_type = RELEASE, txn_quantity = qty,
                        previous_quantity = quantity it', new_quantity = quantity it',
                        previous_reserved = reserved_quantity it' + qty,
                        new_reserved = reserved_quantity it',
                        txn_order_id = oid\<rparr> w1
            in (True, w2)
          else (False, w))"

definition fulfill_order ::
  "product_id \<Rightarrow> int \<Rightarrow> order_id option \<Rightarrow> world \<Rightarrow> bool \<times> world" where
  "fulfill_order pid qty oid w =
     (case objects_get w pid of
        None \<Rightarrow> (False, w)
      | Some it \<Rightarrow>
          if reserved_quantity it \<ge> qty then
            let it' = it\<lparr>quantity := quantity it - qty,
                          reserved_quantity := reserved_quantity it - qty\<rparr>;
                w1 = save_item pid it' w;
                w2 = create_transaction
                       \<lparr>txn_item = pid, txn_type = FULFILL, txn_quantity = qty,
                        previous_quantity = quantity it' + qty,
                        new_quantity = quantity it',
                        previous_reserved = reserved_quantity it' + qty,
                        new_reserved = reserved_quantity it',
                        txn_order_id = oid\<rparr> w1
            in (True, w2)
          else (False, w))"

text \<open>
  The administrative adjustment (\<^verbatim>\<open>InventoryViewSet.adjust\<close> with
  \<^verbatim>\<open>InventoryAdjustmentSerializer\<close>). The serializer accepts a quantity that is at least
  0 and, for \<^verbatim>\<open>remove\<close>, at most the item's \<open>quantity\<close>.
\<close>

datatype adjustment_type = ADD | REMOVE | SET

datatype response = HTTP_200 | HTTP_400 | HTTP_404

definition validate_quantity :: "adjustment_type \<Rightarrow> inventory_item \<Rightarrow> int \<Rightarrow> bool" where
  "validate_quantity adjustment_type inventory_item val =
     (\<not> (adjustment_type = REMOVE \<and> val > quantity inventory_item))"

definition is_valid :: "adjustment_type \<Rightarrow> inventory_item \<Rightarrow> int \<Rightarrow> bool" where
  "is_valid adjustment_type inventory_item qty =
     (qty \<ge> 0 \<and> validate_quantity adjustment_type inventory_item qty)"

definition adjust ::
  "product_id \<Rightarrow> adjustment_type \<Rightarrow> int \<Rightarrow> world \<Rightarrow> response \<times> world" where
  "adjust pk adjustment_type qty w =
     (case inventory w pk of
        None \<Rightarrow> (HTTP_404, w)
      | Some inventory_item \<Rightarrow>
          if is_valid adjustment_type inventory_item qty then
            let previous = quantity inventory_item;
                new = (case adjustment_type of
                         ADD \<Rightarrow> previous + qty
                       | REMOVE \<Rightarrow> max 0 (previous - qty)
                       | SET \<Rightarrow> qty);
                it' = inventory_item\<lparr>quantity := new\<rparr>;
                w1 = save_item pk it' w;
                w2 = create_transaction
                       \<lparr>txn_item = pk, txn_type = ADJUST,
                        txn_quantity = \<bar>new - previous\<bar>,
                        previous_quantity = previous, new_quantity = new,
                        previous_reserved = reserved_quantity it',
                        new_reserved = reserved_quantity it',
                        txn_order_id = None\<rparr> w1
            in (HTTP_200, w2)
          else (HTTP_400, w))"

subsection \<open>The order aggregate (\<^verbatim>\<open>orders/models.py\<close>, \<^verbatim>\<open>orders/signals.py\<close>)\<close>

definition get_order :: "world \<Rightarrow> order_id \<Rightarrow> order option" where
  "get_order w oid = find (\<lambda>r. order_id r = oid) (orders w)"

text \<open>\<^verbatim>\<open>instance.items.all()\<close>.\<close>

definition items_all :: "world \<Rightarrow> order_id \<Rightarrow> order_item list" where
  "items_all w oid = filter (\<lambda>i. item_order i = oid) (order_items w)"

text \<open>
  The two loops of \<^verbatim>\<open>handle_order_status_change\<close>. The result of each ledger call is
  only logged, so the loop goes on to the next item either way.
\<close>

fun release_all :: "order_id \<Rightarrow> order_item list \<Rightarrow> world \<Rightarrow> world" where
  "release_all oid [] w = w"
| "release_all oid (i # rest) w =
     release_all oid rest
       (snd (release_stock (item_product i) (item_quantity i) (Some oid) w))"

fun fulfill_all :: "order_id \<Rightarrow> order_item list \<Rightarrow> world \<Rightarrow> world" where
  "fulfill_all oid [] w = w"
| "fulfill_all oid (i # rest) w =
     fulfill_all oid rest
       (snd (fulfill_order (item_product i) (item_quantity i) (Some oid) w))"

definition handle_order_status_change :: "order \<Rightarrow> bool \<Rightarrow> world \<Rightarrow> world" where
  "handle_order_status_change instance created w =
     (if \<not> created then
        if status instance \<in> {CANCELLED, FAILED} then
          release_all (order_id instance) (items_all w (order_id instance)) w
        else if status instance = DELIVERED then
          fulfill_all (order_id instance) (items_all w (order_id instance)) w
        else w
      else w)"

text \<open>
  \<^verbatim>\<open>self.save(update_fields=['total_amount'])\<close>: the write of one column, then the
  post-save receivers with \<^verbatim>\<open>created=False\<close> (\<^verbatim>\<open>order_created_or_updated\<close> only logs
  there).
\<close>

definition save_total_amount :: "order \<Rightarrow> world \<Rightarrow> world" where
  "save_total_amount self w =
     handle_order_status_change self False
       (w\<lparr>orders := map (\<lambda>r. if order_id r = order_id self
                               then r\<lparr>total_amount := total_amount self\<rparr> else r)
                         (orders w)\<rparr>)"

definition calculate_total :: "order \<Rightarrow> world \<Rightarrow> int \<times> order \<times> world" where
  "calculate_total self w =
     (let total = sum_list (map (\<lambda>i. item_quantity i * item_price i)
                                (items_all w (order_id self)));
          self' = self\<lparr>total_amount := total\<rparr>
      in (total, self', save_total_amount self' w))"

text \<open>\<^verbatim>\<open>process_order.apply_async(..., countdown=c)\<close>; \<^verbatim>\<open>delay\<close> is countdown 0.\<close>

definition apply_async :: "order_id \<Rightarrow> nat \<Rightarrow> world \<Rightarrow> world" where
  "apply_async oid countdown w = w\<lparr>task_queue := task_queue w @ [ProcessOrder oid countdown]\<rparr>"

text \<open>
  The post-save receivers of a newly inserted order: \<^verbatim>\<open>order_created_or_updated\<close>
  recomputes the total and submits the lifecycle task, \<^verbatim>\<open>handle_order_status_change\<close>
  does nothing for a created row.
\<close>

definition order_created :: "order \<Rightarrow> world \<Rightarrow> order \<times> world" where
  "order_created instance w =
     (let (total, instance', w1) = calculate_total instance w;
          w2 = apply_async (order_id instance') 2 w1
      in (instance', handle_order_status_change instance' True w2))"

text \<open>
  \<^verbatim>\<open>self.save()\<close>: an update of the stored row when there is one, an insert otherwise,
  then the post-save receivers.
\<close>

definition save_order :: "order \<Rightarrow> world \<Rightarrow> order \<times> world" where
  "save_order self w =
     (if get_order w (order_id self) \<noteq> None then
        (self, handle_order_status_change self False
                 (w\<lparr>orders := map (\<lambda>r. if order_id r = order_id self then self else r)
                                   (orders w)\<rparr>))
      else order_created self (w\<lparr>orders := self # orders w\<rparr>))"

definition create_history :: "order_status_history \<Rightarrow> world \<Rightarrow> world" where
  "create_history h w = w\<lparr>status_history := status_history w @ [h]\<rparr>"

definition update_status ::
  "time \<Rightarrow> order_status \<Rightarrow> string \<Rightarrow> order \<Rightarrow> world \<Rightarrow> bool \<times> order \<times> world" where
  "update_status now new_status notes self w =
     (if status self = new_status then (False, self, w)
      else
        let old_status = status self;
            s1 = self\<lparr>status := new_status, current_state_since := now,
                      version := version self + 1\<rparr>;
            s2 = (if new_status = PROCESSING \<and> processing_started_at s1 = None then
                    s1\<lparr>processing_started_at := Some now\<rparr>
                  else if new_status \<in> {DELIVERED, CANCELLED, FAILED} then
                    (if completed_at s1 = None then s1\<lparr>completed_at := Some now\<rparr> else s1)
                  else s1);
            (s3, w1) = save_order s2 w;
            w2 = create_history
                   \<lparr>hist_order = order_id s3, from_status = old_status,
                    to_status = new_status, hist_notes = notes\<rparr> w1
        in (True, s3, w2))"

subsection \<open>Order creation (\<^verbatim>\<open>OrderCreateSerializer.create\<close>)\<close>


text \<open>One validated entry of \<^verbatim>\<open>items_data\<close>: the product's id and price, and the quantity.\<close>

record item_data =
  data_product :: product_id
  data_price :: int
  data_quantity :: int






subsection \<open>The cancel action (\<^verbatim>\<open>OrderViewSet.cancel\<close>)\<close>


subsection \<open>The stale-order sweep (\<^verbatim>\<open>check_stale_orders\<close>)\<close>

text \<open>
  The query of one pass: the orders in \<open>st\<close> whose \<open>current_state_since\<close> is before the
  time threshold.
\<close>

definition stale_orders :: "order_status \<Rightarrow> time \<Rightarrow> world \<Rightarrow> order list" where
  "stale_orders st time_threshold w =
     filter (\<lambda>r. status r = st \<and> current_state_since r < time_threshold) (orders w)"

text \<open>
  The inner loop. \<open>retry n\<close> is the outcome of the \<open>n\<close>-th test \<^verbatim>\<open>random.random() < 0.7\<close> of
  the sweep; the loop carries the world, the count of handled orders and the count of
  draws made.
\<close>

fun handle_stale ::
  "time \<Rightarrow> (nat \<Rightarrow> bool) \<Rightarrow> order_status \<Rightarrow> order list \<Rightarrow> world \<times> nat \<times> nat
   \<Rightarrow> world \<times> nat \<times> nat" where
  "handle_stale now retry st [] acc = acc"
| "handle_stale now retry st (ord # rest) (w, handled, draws) =
     (if st = PENDING then
        let (changed, ord', w1) =
              update_status now PENDING ''Restarted due to stale state'' ord w;
            w2 = apply_async (order_id ord') 0 w1
        in handle_stale now retry st rest (w2, handled + 1, draws)
      else if st = PROCESSING then
        if retry draws then
          let (changed, ord', w1) =
                update_status now PENDING ''Retrying due to stale processing state'' ord w;
              w2 = apply_async (order_id ord') 0 w1
          in handle_stale now retry st rest (w2, handled + 1, draws + 1)
        else
          let (changed, ord', w1) =
                update_status now CANCELLED ''Cancelled due to prolonged processing'' ord w
          in handle_stale now retry st rest (w1, handled + 1, draws + 1)
      else if st = SHIPPED then
        let (changed, ord', w1) =
              update_status now DELIVERED ''Auto-delivered due to prolonged shipping'' ord w
        in handle_stale now retry st rest (w1, handled + 1, draws)
      else handle_stale now retry st rest (w, handled + 1, draws))"

text \<open>
  The outer loop over the thresholds, in the order of the dictionary: pending (5
  minutes), processing (10 minutes), shipped (1 hour). The result is the number of
  orders handled.
\<close>

definition sweep_status ::
  "time \<Rightarrow> (nat \<Rightarrow> bool) \<Rightarrow> order_status \<Rightarrow> int \<Rightarrow> world \<times> nat \<times> nat
   \<Rightarrow> world \<times> nat \<times> nat" where
  "sweep_status now retry st threshold acc =
     handle_stale now retry st (stale_orders st (now - threshold) (fst acc)) acc"

definition check_stale_orders :: "time \<Rightarrow> (nat \<Rightarrow> bool) \<Rightarrow> world \<Rightarrow> nat \<times> world" where
  "check_stale_orders now retry w =
     (let acc1 = sweep_status now retry PENDING (5 * 60) (w, 0, 0);
          acc2 = sweep_status now retry PROCESSING (10 * 60) acc1;
          acc3 = sweep_status now retry SHIPPED (60 * 60) acc2
      in (fst (snd acc3), fst acc3))"

subsection \<open>Runs of ledger operations\<close>



text \<open>
  A state-changing operation on the inventory item of one product. The quantity of a
  reserve, release or fulfill is the quantity of an order item, which is not negative;
  the quantity of an adjustment is what the request carries, checked by \<open>is_valid\<close>.
\<close>

datatype ledger_op = Reserve nat | Release nat | Fulfill nat | Adjust adjustment_type int

fun apply_op :: "product_id \<Rightarrow> ledger_op \<Rightarrow> world \<Rightarrow> world" where
  "apply_op pid (Reserve n) w = snd (reserve_stock pid (int n) w)"
| "apply_op pid (Release n) w = snd (release_stock pid (int n) None w)"
| "apply_op pid (Fulfill n) w = snd (fulfill_order pid (int n) None w)"
| "apply_op pid (Adjust a n) w = snd (adjust pid a n w)"

definition run_ops :: "product_id \<Rightarrow> ledger_op list \<Rightarrow> world \<Rightarrow> world" where
  "run_ops pid ops w = fold (apply_op pid) ops w"

text \<open>The adjustments that write a smaller or unrelated \<open>quantity\<close>.\<close>

fun overwrites_quantity :: "ledger_op \<Rightarrow> bool" where
  "overwrites_quantity (Adjust REMOVE n) = True"
| "overwrites_quantity (Adjust SET n) = True"
| "overwrites_quantity op = False"

definition reserved_within_quantity :: "inventory_item \<Rightarrow> bool" where
  "reserved_within_quantity i = (reserved_quantity i \<le> quantity i)"


text \<open>
  The effect of one \<open>release_stock\<close> or \<open>fulfill_order\<close> call for an order item on the
  inventory item of its product: the counters move only when enough is reserved.
\<close>

definition released :: "order_item \<Rightarrow> inventory_item \<Rightarrow> inventory_item" where
  "released i it =
     (if item_quantity i \<le> reserved_quantity it
      then it\<lparr>reserved_quantity := reserved_quantity it - item_quantity i\<rparr> else it)"



definition reserved_for :: "item_data list \<Rightarrow> product_id \<Rightarrow> int" where
  "reserved_for ds p = sum_list (map data_quantity (filter (\<lambda>d. data_product d = p) ds))"


subsection \<open>Sample data\<close>

text \<open>
  A small database used to run the operations on concrete input: product 1 with 100
  units and nothing reserved, product 2 with 10 units of which 4 are reserved, and no
  inventory item for any other product.
\<close>

definition stock :: "int \<Rightarrow> int \<Rightarrow> inventory_item" where
  "stock q r = \<lparr>quantity = q, reserved_quantity = r,
               minimum_threshold = 10, maximum_capacity = 1000\<rparr>"

definition shop :: world where
  "shop = \<lparr>inventory = [1 \<mapsto> stock 100 0, 2 \<mapsto> stock 10 4],
           transactions = [], orders = [], order_items = [],
           status_history = [], task_queue = []\<rparr>"

text \<open>
  A database with one pending order for 5 units of product 1, whose reservation is
  held.
\<close>

definition sample_order :: order where
  "sample_order = \<lparr>order_id = 1, status = PENDING, current_state_since = 1000,
                    version = 1, total_amount = 12500,
                    processing_started_at = None, completed_at = None\<rparr>"

definition sample_item :: order_item where
  "sample_item = \<lparr>item_order = 1, item_product = 1, item_quantity = 5, item_price = 2500\<rparr>"

definition market :: world where
  "market = \<lparr>inventory = [1 \<mapsto> stock 100 5, 2 \<mapsto> stock 10 4],
             transactions = [], orders = [sample_order], order_items = [sample_item],
             status_history = [], task_queue = []\<rparr>"

text \<open>The same database with the order in a given status.\<close>

definition sample_order_in :: "order_status \<Rightarrow> order" where
  "sample_order_in st = sample_order\<lparr>status := st\<rparr>"



definition sample_order_2 :: order where
  "sample_order_2 = \<lparr>order_id = 2, status = PENDING, current_state_since = 1500,
                      version = 1, total_amount = 12500,
                      processing_started_at = None, completed_at = None\<rparr>"

definition sample_item_2 :: order_item where
  "sample_item_2 = \<lparr>item_order = 2, item_product = 1, item_quantity = 5, item_price = 2500\<rparr>"

definition market_two :: world where
  "market_two = market\<lparr>orders := [sample_order_2, sample_order_in CANCELLED],
                        order_items := [sample_item, sample_item_2]\<rparr>"


subsection \<open>Results about the ledger\<close>








text \<open>
  Claim C8, as amended. For a product without an inventory item, \<open>reserve_stock\<close> catches
  the \<^verbatim>\<open>DoesNotExist\<close> of the lookup and returns false, the value it also returns for
  insufficient stock; the database is unchanged.
\<close>

theorem reserve_stock_missing_item:
  assumes "inventory w pid = None"
  shows "reserve_stock pid qty w = (False, w)"
  using assms by (simp add: reserve_stock_def objects_get_def)

theorem reserve_stock_missing_item_witness:
  "inventory shop 7 = None \<and> reserve_stock 7 1 shop = (False, shop)"
proof -
  have h: "inventory shop 7 = None"
    by (simp add: shop_def)
  show ?thesis
    using h reserve_stock_missing_item [OF h, of 1] by simp
qed

text \<open>
  The claim as stated fails: the call for product 7, which has no inventory item, does
  not surface an error. It returns a boolean, and the same one as the call for product
  1 that asks for more than is available.
\<close>

theorem reserve_stock_not_found_counterexample:
  "objects_get shop 7 = None
   \<and> fst (reserve_stock 7 1 shop) = fst (reserve_stock 1 150 shop)
   \<and> \<not> fst (reserve_stock 7 1 shop)"
  by (simp add: reserve_stock_def objects_get_def shop_def stock_def
      available_quantity_def)





lemma inventory_create_transaction [simp]:
  "inventory (create_transaction t w) = inventory w"
  by (simp add: create_transaction_def)

lemma inventory_log_inventory_changes [simp]:
  "inventory (log_inventory_changes pid prev inst w) = inventory w"
  by (simp add: log_inventory_changes_def Let_def)

lemma inventory_save_item [simp]:
  "inventory (save_item pid inst w) = (inventory w)(pid \<mapsto> inst)"
  by (simp add: save_item_def Let_def split: option.splits)

lemma inventory_reserve_stock:
  "inventory w pid = Some it \<Longrightarrow>
   inventory (snd (reserve_stock pid qty w)) =
     (if qty \<le> available_quantity it
      then (inventory w)(pid \<mapsto> it\<lparr>reserved_quantity := reserved_quantity it + qty\<rparr>)
      else inventory w)"
  by (simp add: reserve_stock_def objects_get_def Let_def)

lemma inventory_release_stock:
  "inventory w pid = Some it \<Longrightarrow>
   inventory (snd (release_stock pid qty oid w)) =
     (if qty \<le> reserved_quantity it
      then (inventory w)(pid \<mapsto> it\<lparr>reserved_quantity := reserved_quantity it - qty\<rparr>)
      else inventory w)"
  by (simp add: release_stock_def objects_get_def Let_def)

lemma inventory_fulfill_order:
  "inventory w pid = Some it \<Longrightarrow>
   inventory (snd (fulfill_order pid qty oid w)) =
     (if qty \<le> reserved_quantity it
      then (inventory w)(pid \<mapsto> it\<lparr>quantity := quantity it - qty,
                                     reserved_quantity := reserved_quantity it - qty\<rparr>)
      else inventory w)"
  by (simp add: fulfill_order_def objects_get_def Let_def)

lemma inventory_adjust:
  "inventory w pid = Some it \<Longrightarrow>
   inventory (snd (adjust pid a n w)) =
     (if is_valid a it n
      then (inventory w)(pid \<mapsto> it\<lparr>quantity :=
             (case a of ADD \<Rightarrow> quantity it + n
                      | REMOVE \<Rightarrow> max 0 (quantity it - n)
                      | SET \<Rightarrow> n)\<rparr>)
      else inventory w)"
  by (simp add: adjust_def Let_def)

subsection \<open>The invariant \<open>reserved_quantity \<le> quantity\<close>\<close>

lemma apply_op_keeps:
  assumes "inventory w pid = Some it" "reserved_within_quantity it"
    "\<not> overwrites_quantity op"
  shows "\<exists>it'. inventory (apply_op pid op w) pid = Some it' \<and> reserved_within_quantity it'"
proof (cases op)
  case (Reserve n)
  then show ?thesis using assms
    by (auto simp: inventory_reserve_stock reserved_within_quantity_def available_quantity_def)
next
  case (Release n)
  then show ?thesis using assms
    by (auto simp: inventory_release_stock reserved_within_quantity_def)
next
  case (Fulfill n)
  then show ?thesis using assms
    by (auto simp: inventory_fulfill_order reserved_within_quantity_def)
next
  case (Adjust a n)
  then have "a = ADD" using assms(3) by (cases a) auto
  then show ?thesis using assms Adjust
    by (auto simp: inventory_adjust reserved_within_quantity_def is_valid_def)
qed

text \<open>
  Claim C3, as amended. If an inventory item starts with \<open>reserved_quantity \<le> quantity\<close>,
  then this still holds after every finite sequence of reserve, release, fulfill and
  add-adjustment operations on it.
\<close>

theorem reserved_within_quantity_preserved:
  assumes "inventory w pid = Some it"
    and "reserved_within_quantity it"
    and "\<forall>op \<in> set ops. \<not> overwrites_quantity op"
  shows "\<exists>it'. inventory (run_ops pid ops w) pid = Some it' \<and> reserved_within_quantity it'"
  using assms
proof (induction ops arbitrary: w it)
  case Nil
  then show ?case by (simp add: run_ops_def)
next
  case (Cons op ops)
  from Cons.prems obtain it1 where
    "inventory (apply_op pid op w) pid = Some it1" "reserved_within_quantity it1"
    using apply_op_keeps [of w pid it op] by auto
  then show ?case using Cons.IH [of "apply_op pid op w" it1] Cons.prems(3)
    by (simp add: run_ops_def)
qed

theorem reserved_within_quantity_preserved_witness:
  "inventory shop 2 = Some (stock 10 4) \<and> reserved_within_quantity (stock 10 4)
   \<and> \<not> list_ex overwrites_quantity [Reserve 5, Release 3, Fulfill 2, Adjust ADD 7]
   \<and> inventory (run_ops 2 [Reserve 5, Release 3, Fulfill 2, Adjust ADD 7] shop) 2
       = Some (stock 15 4)"
proof -
  have h: "inventory shop 2 = Some (stock 10 4)" by (simp add: shop_def)
  have i: "reserved_within_quantity (stock 10 4)"
    by (simp add: reserved_within_quantity_def stock_def)
  have n: "\<forall>op \<in> set [Reserve 5, Release 3, Fulfill 2, Adjust ADD 7]. \<not> overwrites_quantity op"
    by simp
  have r: "inventory (run_ops 2 [Reserve 5, Release 3, Fulfill 2, Adjust ADD 7] shop) 2
       = Some (stock 15 4)"
    by code_simp
  show ?thesis
    using h i n r reserved_within_quantity_preserved [OF h i n] by simp
qed

text \<open>
  The claim as stated includes the adjustments in remove and set mode. Those write
  \<open>quantity\<close> without looking at \<open>reserved_quantity\<close>: on product 2, with 10 units of which 4
  are reserved, setting the quantity to 3, or removing 8, leaves more reserved than
  owned.
\<close>

theorem reserved_within_quantity_adjust_counterexample:
  "inventory shop 2 = Some (stock 10 4) \<and> reserved_within_quantity (stock 10 4)
   \<and> inventory (run_ops 2 [Adjust SET 3] shop) 2 = Some (stock 3 4)
   \<and> \<not> reserved_within_quantity (stock 3 4)
   \<and> inventory (run_ops 2 [Adjust REMOVE 8] shop) 2 = Some (stock 2 4)
   \<and> \<not> reserved_within_quantity (stock 2 4)"
  by code_simp

subsection \<open>Status transitions\<close>

lemma create_transaction_frame [simp]:
  "orders (create_transaction t w) = orders w"
  "order_items (create_transaction t w) = order_items w"
  "status_history (create_transaction t w) = status_history w"
  "task_queue (create_transaction t w) = task_queue w"
  by (simp_all add: create_transaction_def)

lemma log_inventory_changes_frame [simp]:
  "orders (log_inventory_changes pid prev inst w) = orders w"
  "order_items (log_inventory_changes pid prev inst w) = order_items w"
  "status_history (log_inventory_changes pid prev inst w) = status_history w"
  "task_queue (log_inventory_changes pid prev inst w) = task_queue w"
  by (simp_all add: log_inventory_changes_def Let_def)

lemma save_item_frame [simp]:
  "orders (save_item pid inst w) = orders w"
  "order_items (save_item pid inst w) = order_items w"
  "status_history (save_item pid inst w) = status_history w"
  "task_queue (save_item pid inst w) = task_queue w"
  by (simp_all add: save_item_def Let_def split: option.splits)

lemma reserve_stock_frame [simp]:
  "orders (snd (reserve_stock pid qty w)) = orders w"
  "order_items (snd (reserve_stock pid qty w)) = order_items w"
  "status_history (snd (reserve_stock pid qty w)) = status_history w"
  "task_queue (snd (reserve_stock pid qty w)) = task_queue w"
  by (simp_all add: reserve_stock_def Let_def split: option.splits)

lemma release_stock_frame [simp]:
  "orders (snd (release_stock pid qty oid w)) = orders w"
  "order_items (snd (release_stock pid qty oid w)) = order_items w"
  "status_history (snd (release_stock pid qty oid w)) = status_history w"
  "task_queue (snd (release_stock pid qty oid w)) = task_queue w"
  by (simp_all add: release_stock_def Let_def split: option.splits)

lemma fulfill_order_frame [simp]:
  "orders (snd (fulfill_order pid qty oid w)) = orders w"
  "order_items (snd (fulfill_order pid qty oid w)) = order_items w"
  "status_history (snd (fulfill_order pid qty oid w)) = status_history w"
  "task_queue (snd (fulfill_order pid qty oid w)) = task_queue w"
  by (simp_all add: fulfill_order_def Let_def split: option.splits)

lemma release_all_frame [simp]:
  "orders (release_all oid items w) = orders w"
  "order_items (release_all oid items w) = order_items w"
  "status_history (release_all oid items w) = status_history w"
  "task_queue (release_all oid items w) = task_queue w"
  by (induction items arbitrary: w; simp)+

lemma fulfill_all_frame [simp]:
  "orders (fulfill_all oid items w) = orders w"
  "order_items (fulfill_all oid items w) = order_items w"
  "status_history (fulfill_all oid items w) = status_history w"
  "task_queue (fulfill_all oid items w) = task_queue w"
  by (induction items arbitrary: w; simp)+

lemma handle_order_status_change_frame [simp]:
  "orders (handle_order_status_change inst created w) = orders w"
  "order_items (handle_order_status_change inst created w) = order_items w"
  "status_history (handle_order_status_change inst created w) = status_history w"
  "task_queue (handle_order_status_change inst created w) = task_queue w"
  by (simp_all add: handle_order_status_change_def)



lemma get_order_handle_order_status_change [simp]:
  "get_order (handle_order_status_change inst created w) k = get_order w k"
  by (simp add: get_order_def)











subsection \<open>Inventory effects of saving an order\<close>

lemma inventory_release_stock_at:
  "inventory (snd (release_stock (item_product i) (item_quantity i) oid w)) p =
     (if p = item_product i then map_option (released i) (inventory w p) else inventory w p)"
  by (simp add: release_stock_def objects_get_def released_def Let_def split: option.splits)


lemma find_product_None:
  "p \<notin> item_product ` set items \<Longrightarrow> find (\<lambda>i. item_product i = p) items = None"
  by (induction items) auto

lemma inventory_release_all:
  "distinct (map item_product items) \<Longrightarrow>
   inventory (release_all oid items w) p =
     (case find (\<lambda>i. item_product i = p) items of
        None \<Rightarrow> inventory w p
      | Some i \<Rightarrow> map_option (released i) (inventory w p))"
proof (induction items arbitrary: w)
  case Nil
  then show ?case by simp
next
  case (Cons i items)
  show ?case
  proof (cases "p = item_product i")
    case True
    then have "find (\<lambda>j. item_product j = p) items = None"
      using Cons.prems by (simp add: find_product_None)
    then show ?thesis using True Cons.IH Cons.prems
      by (simp add: inventory_release_stock_at)
  next
    case False
    then have "item_product i \<noteq> p" by simp
    then show ?thesis using False Cons.IH Cons.prems
      by (simp add: inventory_release_stock_at split: option.splits)
  qed
qed


lemma find_product_member:
  "distinct (map item_product items) \<Longrightarrow> i \<in> set items \<Longrightarrow>
   find (\<lambda>j. item_product j = item_product i) items = Some i"
  by (induction items) (auto simp: image_iff)

lemma items_all_orders [simp]: "items_all (w\<lparr>orders := rows\<rparr>) oid = items_all w oid"
  by (simp add: items_all_def)

lemma inventory_create_history [simp]: "inventory (create_history h w) = inventory w"
  by (simp add: create_history_def)








text \<open>
  Claim C10. The release is keyed on the status of the order at the time of a save, not
  on the transition. For an order that already is cancelled or failed,
  \<open>calculate_total\<close>, which saves the order, runs the release loop over every item of the
  order again, and so does every other save of the stored order: an item's product
  loses the item's quantity from \<open>reserved_quantity\<close> once more, whenever that much is
  reserved, whoever holds it. In the sample run the 5 units held by the pending order 2
  are released by a save of the cancelled order 1.
\<close>

theorem save_of_closed_order_releases_again:
  assumes "status self \<in> {CANCELLED, FAILED}"
    and "distinct (map item_product (items_all w (order_id self)))"
    and "i \<in> set (items_all w (order_id self))"
    and "inventory w (item_product i) = Some it"
  shows "snd (snd (calculate_total self w)) =
           release_all (order_id self) (items_all w (order_id self))
             (w\<lparr>orders := map (\<lambda>r. if order_id r = order_id self
                                     then r\<lparr>total_amount := fst (calculate_total self w)\<rparr>
                                     else r) (orders w)\<rparr>)
       \<and> inventory (snd (snd (calculate_total self w))) (item_product i) =
           Some (if item_quantity i \<le> reserved_quantity it
                 then it\<lparr>reserved_quantity := reserved_quantity it - item_quantity i\<rparr>
                 else it)
       \<and> (get_order w (order_id self) \<noteq> None \<longrightarrow>
            inventory (snd (save_order self w)) (item_product i) =
              Some (if item_quantity i \<le> reserved_quantity it
                    then it\<lparr>reserved_quantity := reserved_quantity it - item_quantity i\<rparr>
                    else it))"
proof -
  have f: "find (\<lambda>j. item_product j = item_product i) (items_all w (order_id self)) = Some i"
    using assms(2,3) by (rule find_product_member)
  have st: "status (self\<lparr>total_amount := x\<rparr>) \<in> {CANCELLED, FAILED}" for x
    using assms(1) by simp
  have a: "snd (snd (calculate_total self w)) =
           release_all (order_id self) (items_all w (order_id self))
             (w\<lparr>orders := map (\<lambda>r. if order_id r = order_id self
                                     then r\<lparr>total_amount := fst (calculate_total self w)\<rparr>
                                     else r) (orders w)\<rparr>)"
    using st
    by (simp add: calculate_total_def save_total_amount_def handle_order_status_change_def
        Let_def del: insert_iff cong: if_cong)
  have r: "inventory (release_all (order_id self) (items_all w (order_id self)) (w\<lparr>orders := rows\<rparr>))
            (item_product i) = Some (released i it)" for rows
    using f assms(4) inventory_release_all [OF assms(2), of "order_id self" "w\<lparr>orders := rows\<rparr>"]
    by simp
  have b: "inventory (snd (snd (calculate_total self w))) (item_product i) =
           Some (released i it)"
    unfolding a by (rule r)
  have c: "inventory (snd (save_order self w)) (item_product i) = Some (released i it)"
    if "get_order w (order_id self) \<noteq> None"
    using that assms(1) r
    by (simp add: save_order_def handle_order_status_change_def del: insert_iff)
  show ?thesis using a b c by (simp add: released_def)
qed

theorem save_of_closed_order_releases_again_witness:
  "status (sample_order_in CANCELLED) = CANCELLED
   \<and> items_all market_two 1 = [sample_item]
   \<and> items_all market_two 2 = [sample_item_2]
   \<and> map status (orders market_two) = [PENDING, CANCELLED]
   \<and> inventory market_two 1 = Some (stock 100 5)
   \<and> inventory (snd (snd (calculate_total (sample_order_in CANCELLED) market_two))) 1
       = Some (stock 100 0)
   \<and> inventory (snd (save_order (sample_order_in CANCELLED) market_two)) 1
       = Some (stock 100 0)"
proof -
  have o: "order_id (sample_order_in CANCELLED) = 1"
      "status (sample_order_in CANCELLED) \<in> {CANCELLED, FAILED}"
    by (simp_all add: sample_order_in_def sample_order_def)
  have it: "items_all market_two (order_id (sample_order_in CANCELLED)) = [sample_item]"
      "items_all market_two 2 = [sample_item_2]"
    by (simp_all add: o items_all_def market_two_def sample_item_def sample_item_2_def)
  have d: "distinct (map item_product (items_all market_two (order_id (sample_order_in CANCELLED))))"
    by (simp add: it)
  have m: "sample_item \<in> set (items_all market_two (order_id (sample_order_in CANCELLED)))"
    by (simp add: it)
  have p: "item_product sample_item = 1" "item_quantity sample_item = 5"
    by (simp_all add: sample_item_def)
  have i: "inventory market_two (item_product sample_item) = Some (stock 100 5)"
    by (simp add: p market_two_def market_def)
  have g: "get_order market_two (order_id (sample_order_in CANCELLED)) \<noteq> None"
    by (simp add: o get_order_def market_two_def sample_order_2_def sample_order_in_def
        sample_order_def)
  have s: "map status (orders market_two) = [PENDING, CANCELLED]"
    by (simp add: market_two_def sample_order_2_def sample_order_in_def)
  have c: "status (sample_order_in CANCELLED) = CANCELLED"
    by (simp add: sample_order_in_def)
  show ?thesis
    using save_of_closed_order_releases_again [OF o(2) d m i, THEN conjunct2] g it i s o(1) c
    by (simp add: p stock_def)
qed

subsection \<open>The stale-order sweep\<close>

text \<open>
  The pending pass of the sweep calls \<open>update_status\<close> with the status the order already
  has, so the call is the no-op of the guard: the pass changes no row and appends no
  history; it only submits one lifecycle run per stale pending order.
\<close>

lemma update_status_pending_noop:
  "status ord = PENDING \<Longrightarrow>
   update_status now PENDING notes ord w = (False, ord, w)"
  by (simp add: update_status_def)

lemma handle_stale_pending:
  "\<forall>r \<in> set os. status r = PENDING \<Longrightarrow>
   handle_stale now retry PENDING os (w, handled, draws) =
     (w\<lparr>task_queue := task_queue w @ map (\<lambda>r. ProcessOrder (order_id r) 0) os\<rparr>,
      handled + length os, draws)"
proof (induction os arbitrary: w handled)
  case Nil
  then show ?case by simp
next
  case (Cons r os)
  then show ?case
    by (simp add: update_status_pending_noop apply_async_def)
qed

lemma sweep_pending:
  "sweep_status now retry PENDING (5 * 60) (w, 0, 0) =
     (w\<lparr>task_queue := task_queue w @
          map (\<lambda>r. ProcessOrder (order_id r) 0) (stale_orders PENDING (now - 5 * 60) w)\<rparr>,
      length (stale_orders PENDING (now - 5 * 60) w), 0)"
  by (simp add: sweep_status_def handle_stale_pending stale_orders_def)

text \<open>
  Claim C7 at a concrete input. Order 1 is pending since time 1000; the sweep runs six
  minutes later, at 1360. The order is found stale and counted, and one lifecycle run is
  submitted for it, but the stored order is the same as before: \<open>current_state_since\<close>
  is still 1000, the version is unchanged and there is no history row. Being as stale as
  before, the order is picked up again by the next sweep, which submits a second run.
\<close>

theorem stale_pending_order_not_refreshed:
  "get_order market 1 = Some sample_order
   \<and> status sample_order = PENDING
   \<and> current_state_since sample_order = 1000
   \<and> 1000 + 6 * 60 = (1360 :: int)
   \<and> stale_orders PENDING (1360 - 5 * 60) market = [sample_order]
   \<and> fst (check_stale_orders 1360 (\<lambda>n. True) market) = 1
   \<and> get_order (snd (check_stale_orders 1360 (\<lambda>n. True) market)) 1 = Some sample_order
   \<and> status_history (snd (check_stale_orders 1360 (\<lambda>n. True) market)) = []
   \<and> task_queue (snd (check_stale_orders 1360 (\<lambda>n. True) market)) = [ProcessOrder 1 0]
   \<and> task_queue (snd (check_stale_orders 1660 (\<lambda>n. True)
                          (snd (check_stale_orders 1360 (\<lambda>n. True) market))))
       = [ProcessOrder 1 0, ProcessOrder 1 0]"
  by code_simp

subsection \<open>Order creation\<close>




lemma reserved_for_Nil [simp]: "reserved_for [] p = 0"
  by (simp add: reserved_for_def)


lemma transactions_unchanged_irrelevant: "inventory (w\<lparr>transactions := ts\<rparr>) = inventory w"
  by simp





end
